theory Spec2Isabelle
  imports Complex_Main
begin

section \<open>Numbers\<close>

text \<open>
  Tensor elements, scores and coordinates are float32/float64 values in the scripts.
  They are modelled as exact rationals: every finite float is a rational, and the
  model computes with them without rounding error, infinities or NaN.
\<close>

datatype error =
    IndexError
  | ZeroDivisionError
  | KthOutOfBounds
  | FloatDivideByZero
  | KeyMissing
  | ShapeMismatch
  | Unsupported

definition py_round :: "rat \<Rightarrow> int" where
  \<comment> \<open>Python's \<open>round(x)\<close>, \<open>np.rint\<close> and the Round operator: nearest integer, ties to even.\<close>
  "py_round q =
     (let f = \<lfloor>q\<rfloor>; d = q - of_int f
      in if d < 1 / 2 then f
         else if 1 / 2 < d then f + 1
         else if even f then f else f + 1)"

definition py_int :: "rat \<Rightarrow> int" where
  \<comment> \<open>Python's \<open>int(x)\<close> on a float: truncation towards zero.\<close>
  "py_int q = (if 0 \<le> q then \<lfloor>q\<rfloor> else \<lceil>q\<rceil>)"

definition clip :: "rat \<Rightarrow> rat \<Rightarrow> rat \<Rightarrow> rat" where
  \<comment> \<open>\<open>np.clip(x, lo, hi)\<close> is \<open>minimum(maximum(x, lo), hi)\<close>.\<close>
  "clip x lo hi = min (max x lo) hi"

section \<open>Letterbox (self\_valid.py, lines 11--14 and 50--53)\<close>

record letterbox =
  scale :: rat
  pad_x :: int
  pad_y :: int
  orig_w :: int
  orig_h :: int

definition new_size :: "int \<Rightarrow> int \<Rightarrow> int \<Rightarrow> error + (rat \<times> int \<times> int)" where
  \<comment> \<open>\<open>r = min(imgsz / w0, imgsz / h0)\<close>; \<open>nw, nh = int(round(w0 * r)), int(round(h0 * r))\<close>.
      Python's \<open>/\<close> raises ZeroDivisionError on a zero divisor.\<close>
  "new_size w0 h0 imgsz =
     (if w0 = 0 \<or> h0 = 0 then Inl ZeroDivisionError
      else let r = min (of_int imgsz / of_int w0) (of_int imgsz / of_int h0)
           in Inr (r, py_round (of_int w0 * r), py_round (of_int h0 * r)))"

definition compute :: "int \<Rightarrow> int \<Rightarrow> int \<Rightarrow> error + letterbox" where
  \<comment> \<open>\<open>padx, pady = (imgsz - nw) // 2, (imgsz - nh) // 2\<close>; \<open>//\<close> is floor division.\<close>
  "compute w0 h0 imgsz =
     (case new_size w0 h0 imgsz of
        Inl e \<Rightarrow> Inl e
      | Inr (r, nw, nh) \<Rightarrow>
          Inr \<lparr>scale = r, pad_x = (imgsz - nw) div 2, pad_y = (imgsz - nh) div 2,
               orig_w = w0, orig_h = h0\<rparr>)"

definition to_original_space :: "letterbox \<Rightarrow> rat \<times> rat \<Rightarrow> rat \<times> rat" where
  \<comment> \<open>Lines 50--53 on one corner: \<open>(x - padx) / r\<close> clipped to \<open>[0, w0 - 1]\<close>, and
      \<open>(y - pady) / r\<close> clipped to \<open>[0, h0 - 1]\<close>. The division is the float one; with
      \<open>r = 0\<close> numpy yields inf or NaN, which this model does not represent, so
      every use below is under \<open>scale t \<noteq> 0\<close>.\<close>
  "to_original_space t q =
     (clip ((fst q - of_int (pad_x t)) / scale t) 0 (of_int (orig_w t - 1)),
      clip ((snd q - of_int (pad_y t)) / scale t) 0 (of_int (orig_h t - 1)))"

section \<open>Tensors\<close>

text \<open>
  Every float tensor of the two scripts has rank 3: the detector output \<open>[1,7,N]\<close> or
  \<open>[1,N,7]\<close> and everything the inserted nodes compute from it. A tensor is its three
  dimensions and its elements in row-major order, so that a dimension of size 0 keeps
  the other two. An array of the scripts always has as many elements as its dimensions
  say; the functions below read \<open>elems\<close> only at indices inside the dimensions.
\<close>

record tensor =
  dim0 :: nat
  dim1 :: nat
  dim2 :: nat
  elems :: "rat list"

definition at3 :: "tensor \<Rightarrow> nat \<Rightarrow> nat \<Rightarrow> nat \<Rightarrow> rat" where
  "at3 t b i j = elems t ! ((b * dim1 t + i) * dim2 t + j)"

definition build3 :: "nat \<Rightarrow> nat \<Rightarrow> nat \<Rightarrow> (nat \<Rightarrow> nat \<Rightarrow> nat \<Rightarrow> rat) \<Rightarrow> tensor" where
  "build3 a b c f =
     \<lparr>dim0 = a, dim1 = b, dim2 = c,
      elems = concat (map (\<lambda>x. concat (map (\<lambda>y. map (f x y) [0..<c]) [0..<b])) [0..<a])\<rparr>"

definition shape :: "tensor \<Rightarrow> nat list" where
  "shape t = [dim0 t, dim1 t, dim2 t]"

definition transpose021 :: "tensor \<Rightarrow> tensor" where
  \<comment> \<open>\<open>np.transpose(y, (0,2,1))\<close> and Transpose with \<open>perm = [0,2,1]\<close>.\<close>
  "transpose021 t = build3 (dim0 t) (dim2 t) (dim1 t) (\<lambda>b i j. at3 t b j i)"

section \<open>The graph (inject\_postprocess.py)\<close>

datatype elem_type = FLOAT | INT64

datatype dim = DimValue int | DimParam string

record value_info =
  vi_name :: string
  vi_elem :: elem_type
  vi_shape :: "dim list"

datatype tensor_data = Ints "int list" | Floats "rat list"

record tensor_proto =
  tp_name :: string
  tp_type :: elem_type
  tp_dims :: "int list"
  tp_data :: tensor_data

datatype attr = AInt int | AInts "int list"

record node =
  op_type :: string
  n_input :: "string list"
  n_output :: "string list"
  n_attribute :: "(string \<times> attr) list"

record graph =
  g_node :: "node list"
  g_initializer :: "tensor_proto list"
  g_value_info :: "value_info list"
  g_input :: "value_info list"
  g_output :: "value_info list"

definition make_tensor :: "string \<Rightarrow> elem_type \<Rightarrow> int list \<Rightarrow> int list \<Rightarrow> tensor_proto" where
  "make_tensor name ty dims vals =
     \<lparr>tp_name = name, tp_type = ty, tp_dims = dims, tp_data = Ints vals\<rparr>"

definition make_node ::
  "string \<Rightarrow> string list \<Rightarrow> string list \<Rightarrow> (string \<times> attr) list \<Rightarrow> node" where
  "make_node op ins outs attrs =
     \<lparr>op_type = op, n_input = ins, n_output = outs, n_attribute = attrs\<rparr>"

definition make_tensor_value_info :: "string \<Rightarrow> elem_type \<Rightarrow> dim list \<Rightarrow> value_info" where
  "make_tensor_value_info name ty shp = \<lparr>vi_name = name, vi_elem = ty, vi_shape = shp\<rparr>"

definition make_slice_col ::
  "graph \<Rightarrow> string \<Rightarrow> int \<Rightarrow> int \<Rightarrow> string \<Rightarrow> graph \<times> node" where
  \<comment> \<open>Lines 5--12. The four constant tensors are appended to the initializers, and the
      Slice node reads them by name.\<close>
  "make_slice_col g src start end out_name =
     (let starts = make_tensor (out_name @ ''_starts'') INT64 [3] [0, start, 0];
          ends = make_tensor (out_name @ ''_ends'') INT64 [3] [1, end, 9223372036854775807];
          axes = make_tensor (out_name @ ''_axes'') INT64 [3] [0, 1, 2];
          steps = make_tensor (out_name @ ''_steps'') INT64 [3] [1, 1, 1]
      in (g\<lparr>g_initializer := g_initializer g @ [starts, ends, axes, steps]\<rparr>,
          make_node ''Slice''
            [src, tp_name starts, tp_name ends, tp_name axes, tp_name steps] [out_name] []))"

definition rename_output :: "string \<Rightarrow> string \<Rightarrow> node \<Rightarrow> node" where
  \<comment> \<open>Lines 32--34: every output entry equal to \<open>raw_out\<close> becomes \<open>raw_new\<close>.\<close>
  "rename_output raw_out raw_new n =
     n\<lparr>n_output := map (\<lambda>nm. if nm = raw_out then raw_new else nm) (n_output n)\<rparr>"

definition post_dets_info :: value_info where
  "post_dets_info =
     make_tensor_value_info ''post_dets'' FLOAT [DimValue 1, DimParam ''unk'', DimValue 6]"

definition augment :: "graph \<Rightarrow> error + graph" where
  \<comment> \<open>\<open>main\<close>, lines 21--79, on the loaded graph. \<open>g.output[0]\<close> raises IndexError on a
      graph with no output; \<open>g.output.pop()\<close> removes the last output. The checker and the
      file write of lines 81--82 belong to the onnx library and are not part of the model.\<close>
  "augment g0 =
     (case g_output g0 of
        [] \<Rightarrow> Inl IndexError
      | out0 # _ \<Rightarrow>
          (let raw_out = vi_name out0;
               g = g0\<lparr>g_output := butlast (g_output g0)\<rparr>;
               raw_new = raw_out @ ''_raw'';
               g = g\<lparr>g_node := map (rename_output raw_out raw_new) (g_node g)\<rparr>;
               g = g\<lparr>g_value_info := g_value_info g @
                     [make_tensor_value_info raw_new FLOAT
                        [DimValue 1, DimValue 7, DimParam ''unk'']]\<rparr>;
               t1 = make_node ''Transpose'' [raw_new] [''n7''] [(''perm'', AInts [0, 2, 1])];
               (g, s_x1) = make_slice_col g ''n7'' 0 1 ''c_x1'';
               (g, s_y1) = make_slice_col g ''n7'' 1 2 ''c_y1'';
               (g, s_x2) = make_slice_col g ''n7'' 2 3 ''c_x2'';
               (g, s_y2) = make_slice_col g ''n7'' 3 4 ''c_y2'';
               (g, s_f4) = make_slice_col g ''n7'' 4 5 ''c_f4'';
               (g, s_f5) = make_slice_col g ''n7'' 5 6 ''c_f5'';
               (g, s_f6) = make_slice_col g ''n7'' 6 7 ''c_f6'';
               mul = make_node ''Mul'' [''c_f4'', ''c_f6''] [''scoreA''] [];
               mx = make_node ''Max'' [''scoreA'', ''c_f4''] [''score''] [];
               rnd = make_node ''Round'' [''c_f5''] [''cls_id''] [];
               cat = make_node ''Concat''
                       [''c_x1'', ''c_y1'', ''c_x2'', ''c_y2'', ''score'', ''cls_id'']
                       [''post_dets''] [(''axis'', AInt 2)];
               g = g\<lparr>g_output := g_output g @ [post_dets_info]\<rparr>;
               g = g\<lparr>g_node := g_node g @
                     [t1, s_x1, s_y1, s_x2, s_y2, s_f4, s_f5, s_f6, mul, mx, rnd, cat]\<rparr>
           in Inr g))"

section \<open>Running a graph\<close>

text \<open>
  The execution engine is a collaborator of the tool. The operators the tool inserts
  are evaluated as the ONNX operator definitions give them, on rank-3 float tensors and
  one-dimensional int64 constants; any other operator or attribute value evaluates to
  \<open>Unsupported\<close>.
\<close>

datatype val = FloatT tensor | Int64T "int list"

type_synonym env = "(string \<times> val) list"

definition clamp_index :: "nat \<Rightarrow> int \<Rightarrow> nat" where
  \<comment> \<open>Slice with a positive step: a negative index counts from the end, and the result
      is clamped to \<open>[0, d]\<close>.\<close>
  "clamp_index d i = nat (max 0 (min (int d) (if i < 0 then i + int d else i)))"

definition axis_range :: "int list \<Rightarrow> int list \<Rightarrow> int list \<Rightarrow> nat \<Rightarrow> nat \<Rightarrow> nat \<times> nat" where
  \<comment> \<open>The half-open index range Slice keeps on axis \<open>a\<close> of size \<open>d\<close>: the one given for
      that axis, or the whole axis.\<close>
  "axis_range starts ends axes a d =
     (case find (\<lambda>(ax, se). (if ax < 0 then ax + 3 else ax) = int a)
             (zip axes (zip starts ends)) of
        None \<Rightarrow> (0, d)
      | Some (ax, s, e) \<Rightarrow> (clamp_index d s, clamp_index d e))"

definition slice3 :: "tensor \<Rightarrow> int list \<Rightarrow> int list \<Rightarrow> int list \<Rightarrow> int list \<Rightarrow> error + tensor" where
  "slice3 t starts ends axes steps =
     (if length starts \<noteq> length axes \<or> length ends \<noteq> length axes
         \<or> length steps \<noteq> length axes then Inl ShapeMismatch
      else if list_ex (\<lambda>ax. ax < - 3 \<or> 3 \<le> ax) axes then Inl ShapeMismatch
      else if list_ex (\<lambda>s. s \<noteq> 1) steps then Inl Unsupported
      else let r0 = axis_range starts ends axes 0 (dim0 t);
               r1 = axis_range starts ends axes 1 (dim1 t);
               r2 = axis_range starts ends axes 2 (dim2 t)
           in Inr (build3 (snd r0 - fst r0) (snd r1 - fst r1) (snd r2 - fst r2)
                     (\<lambda>b i j. at3 t (fst r0 + b) (fst r1 + i) (fst r2 + j))))"

definition bdim :: "nat \<Rightarrow> nat \<Rightarrow> nat option" where
  \<comment> \<open>Broadcasting of one dimension.\<close>
  "bdim a b = (if a = b then Some a else if a = 1 then Some b
               else if b = 1 then Some a else None)"

definition bidx :: "nat \<Rightarrow> nat \<Rightarrow> nat" where
  "bidx d i = (if d = 1 then 0 else i)"

definition binop :: "(rat \<Rightarrow> rat \<Rightarrow> rat) \<Rightarrow> tensor \<Rightarrow> tensor \<Rightarrow> error + tensor" where
  \<comment> \<open>Mul and Max: elementwise, with broadcasting.\<close>
  "binop f x y =
     (case (bdim (dim0 x) (dim0 y), bdim (dim1 x) (dim1 y), bdim (dim2 x) (dim2 y)) of
        (Some a, Some b, Some c) \<Rightarrow>
          Inr (build3 a b c (\<lambda>i j k.
                 f (at3 x (bidx (dim0 x) i) (bidx (dim1 x) j) (bidx (dim2 x) k))
                   (at3 y (bidx (dim0 y) i) (bidx (dim1 y) j) (bidx (dim2 y) k))))
      | _ \<Rightarrow> Inl ShapeMismatch)"

definition round_tensor :: "tensor \<Rightarrow> tensor" where
  "round_tensor t = t\<lparr>elems := map (\<lambda>q. of_int (py_round q)) (elems t)\<rparr>"

definition concat2 :: "tensor list \<Rightarrow> error + tensor" where
  \<comment> \<open>Concat along axis 2: the other two dimensions must agree.\<close>
  "concat2 ts =
     (case ts of
        [] \<Rightarrow> Inl ShapeMismatch
      | t # _ \<Rightarrow>
          if list_ex (\<lambda>u. dim0 u \<noteq> dim0 t \<or> dim1 u \<noteq> dim1 t) ts then Inl ShapeMismatch
          else Inr \<lparr>dim0 = dim0 t, dim1 = dim1 t, dim2 = sum_list (map dim2 ts),
                    elems = concat (map (\<lambda>b. concat (map (\<lambda>i.
                              concat (map (\<lambda>u. map (at3 u b i) [0..<dim2 u]) ts))
                              [0..<dim1 t])) [0..<dim0 t])\<rparr>)"

definition get_float :: "env \<Rightarrow> string \<Rightarrow> error + tensor" where
  "get_float e name =
     (case map_of e name of
        None \<Rightarrow> Inl KeyMissing
      | Some (FloatT t) \<Rightarrow> Inr t
      | Some (Int64T _) \<Rightarrow> Inl Unsupported)"

definition get_ints :: "env \<Rightarrow> string \<Rightarrow> error + int list" where
  "get_ints e name =
     (case map_of e name of
        None \<Rightarrow> Inl KeyMissing
      | Some (Int64T xs) \<Rightarrow> Inr xs
      | Some (FloatT _) \<Rightarrow> Inl Unsupported)"

fun get_floats :: "env \<Rightarrow> string list \<Rightarrow> error + tensor list" where
  "get_floats e [] = Inr []"
| "get_floats e (n # ns) =
     (case get_float e n of
        Inl err \<Rightarrow> Inl err
      | Inr t \<Rightarrow> (case get_floats e ns of Inl err \<Rightarrow> Inl err | Inr ts \<Rightarrow> Inr (t # ts)))"

definition eval_node :: "env \<Rightarrow> node \<Rightarrow> error + tensor" where
  "eval_node e n =
     (if op_type n = ''Identity'' then
        (case n_input n of [x] \<Rightarrow> get_float e x | _ \<Rightarrow> Inl ShapeMismatch)
      else if op_type n = ''Transpose'' then
        (case n_input n of
           [x] \<Rightarrow>
             (if map_of (n_attribute n) ''perm'' = Some (AInts [0, 2, 1])
              then (case get_float e x of Inl err \<Rightarrow> Inl err | Inr t \<Rightarrow> Inr (transpose021 t))
              else Inl Unsupported)
         | _ \<Rightarrow> Inl ShapeMismatch)
      else if op_type n = ''Slice'' then
        (case n_input n of
           [x, s, en, ax, st] \<Rightarrow>
             (case (get_float e x, get_ints e s, get_ints e en, get_ints e ax, get_ints e st) of
                (Inr t, Inr starts, Inr ends, Inr axes, Inr steps) \<Rightarrow>
                  slice3 t starts ends axes steps
              | _ \<Rightarrow> Inl KeyMissing)
         | _ \<Rightarrow> Inl Unsupported)
      else if op_type n = ''Mul'' \<or> op_type n = ''Max'' then
        (case n_input n of
           [x, y] \<Rightarrow>
             (case (get_float e x, get_float e y) of
                (Inr a, Inr b) \<Rightarrow> binop (if op_type n = ''Mul'' then (*) else max) a b
              | _ \<Rightarrow> Inl KeyMissing)
         | _ \<Rightarrow> Inl Unsupported)
      else if op_type n = ''Round'' then
        (case n_input n of
           [x] \<Rightarrow> (case get_float e x of Inl err \<Rightarrow> Inl err | Inr t \<Rightarrow> Inr (round_tensor t))
         | _ \<Rightarrow> Inl ShapeMismatch)
      else if op_type n = ''Concat'' then
        (if map_of (n_attribute n) ''axis'' = Some (AInt 2)
         then (case get_floats e (n_input n) of Inl err \<Rightarrow> Inl err | Inr ts \<Rightarrow> concat2 ts)
         else Inl Unsupported)
      else Inl Unsupported)"

definition exec_node :: "env \<Rightarrow> node \<Rightarrow> error + env" where
  \<comment> \<open>Every operator here has one output; it is bound to the node's output name.\<close>
  "exec_node e n =
     (case n_output n of
        [out] \<Rightarrow> (case eval_node e n of Inl err \<Rightarrow> Inl err | Inr t \<Rightarrow> Inr ((out, FloatT t) # e))
      | _ \<Rightarrow> Inl Unsupported)"

fun run_nodes :: "env \<Rightarrow> node list \<Rightarrow> error + env" where
  "run_nodes e [] = Inr e"
| "run_nodes e (n # ns) =
     (case exec_node e n of Inl err \<Rightarrow> Inl err | Inr e' \<Rightarrow> run_nodes e' ns)"

definition init_env :: "graph \<Rightarrow> env" where
  "init_env g =
     concat (map (\<lambda>tp. case tp_data tp of
                          Ints xs \<Rightarrow> [(tp_name tp, Int64T xs)]
                        | Floats _ \<Rightarrow> [])
                 (g_initializer g))"

definition run_env :: "graph \<Rightarrow> env \<Rightarrow> error + env" where
  \<comment> \<open>The nodes in their listed order, over the initializers and the fed inputs.\<close>
  "run_env g feeds = run_nodes (feeds @ init_env g) (g_node g)"

definition run_graph :: "graph \<Rightarrow> env \<Rightarrow> error + tensor list" where
  \<comment> \<open>The values of the declared outputs, in order.\<close>
  "run_graph g feeds =
     (case run_env g feeds of
        Inl err \<Rightarrow> Inl err
      | Inr e \<Rightarrow> get_floats e (map vi_name (g_output g)))"

section \<open>The host-side decoder (self\_valid.py, lines 26--77)\<close>

type_synonym box = "rat \<times> rat \<times> rat \<times> rat"

type_synonym rect = "int \<times> int \<times> int \<times> int"

record detection =
  d_rect :: rect
  d_score :: rat
  d_cls :: int

definition normalize_layout :: "tensor \<Rightarrow> tensor" where
  \<comment> \<open>Lines 27--28: \<open>if y.shape[1] == 7: y = np.transpose(y, (0,2,1))\<close>.\<close>
  "normalize_layout y = (if dim1 y = 7 then transpose021 y else y)"

definition num_candidates :: "tensor \<Rightarrow> nat" where
  \<comment> \<open>N, the number of rows of \<open>y[0]\<close> after the layout is normalised.\<close>
  "num_candidates y = dim1 (normalize_layout y)"

definition column :: "tensor \<Rightarrow> nat \<Rightarrow> rat list" where
  \<comment> \<open>\<open>y[0][:, i]\<close>.\<close>
  "column y i = map (\<lambda>n. at3 y 0 n i) [0..<dim1 y]"

definition fuse :: "rat list \<Rightarrow> rat list \<Rightarrow> rat list" where
  \<comment> \<open>Lines 36--38: \<open>conf = np.maximum(f4 * f6, f4)\<close>.\<close>
  "fuse f4 f6 = map2 (\<lambda>a b. max (a * b) a) f4 f6"

definition kth_out_of_bounds :: "nat \<Rightarrow> nat \<Rightarrow> bool" where
  \<comment> \<open>\<open>np.argpartition(a, kth)\<close> with \<open>kth = K - 1\<close> on N elements: a negative \<open>kth\<close>
      counts from the end, and numpy raises ValueError unless \<open>0 \<le> kth < N\<close>. numpy
      checks the bound only on a non-empty array: with \<open>N = 0\<close> nothing is raised and
      the result is the empty index array.\<close>
  "kth_out_of_bounds K N =
     (let kth = int K - 1; k = (if kth < 0 then kth + int N else kth)
      in N \<noteq> 0 \<and> (k < 0 \<or> int N \<le> k))"

definition top_k_indices :: "rat list \<Rightarrow> nat \<Rightarrow> nat list" where
  \<comment> \<open>Lines 42--43: the indices of the K largest scores, in descending order of score.
      numpy leaves the order of equal scores open; here equal scores keep their index
      order.\<close>
  "top_k_indices conf K = take K (sort_key (\<lambda>i. - (conf ! i)) [0..<length conf])"

definition unletterbox :: "letterbox \<Rightarrow> box \<Rightarrow> box" where
  \<comment> \<open>Lines 50--53 on one box: both corners go through \<open>to_original_space\<close>.\<close>
  "unletterbox t b =
     (case b of (x1, y1, x2, y2) \<Rightarrow>
        (case (to_original_space t (x1, y1), to_original_space t (x2, y2)) of
           ((u1, v1), (u2, v2)) \<Rightarrow> (u1, v1, u2, v2)))"

definition to_rect :: "box \<Rightarrow> rect" where
  \<comment> \<open>Line 62: \<open>tuple(map(int, [b[0], b[1], b[2]-b[0], b[3]-b[1]]))\<close>.\<close>
  "to_rect b =
     (case b of (x1, y1, x2, y2) \<Rightarrow> (py_int x1, py_int y1, py_int (x2 - x1), py_int (y2 - y1)))"

definition corners :: "rect \<Rightarrow> box" where
  "corners r =
     (case r of (x, y, w, h) \<Rightarrow> (of_int x, of_int y, of_int (x + w), of_int (y + h)))"

definition area :: "box \<Rightarrow> rat" where
  "area b = (case b of (x1, y1, x2, y2) \<Rightarrow> (x2 - x1) * (y2 - y1))"

definition inter_area :: "box \<Rightarrow> box \<Rightarrow> rat" where
  "inter_area a b =
     (case (a, b) of ((ax1, ay1, ax2, ay2), (bx1, by1, bx2, by2)) \<Rightarrow>
        max 0 (min ax2 bx2 - max ax1 bx1) * max 0 (min ay2 by2 - max ay1 by1))"

definition iou :: "box \<Rightarrow> box \<Rightarrow> rat" where
  \<comment> \<open>Modelled from the spec: the overlap measure is inside \<open>cv2.dnn.NMSBoxes\<close>, whose
      code is not in the repository. The spec: the ratio of the overlapping area to the
      union area of two axis-aligned boxes \<open>(x1,y1,x2,y2)\<close>; a box of zero or negative
      area is degenerate, and the IoU against it is 0 unless the two boxes coincide.\<close>
  "iou a b =
     (if area a \<le> 0 \<or> area b \<le> 0 then (if a = b then 1 else 0)
      else let i = inter_area a b; u = area a + area b - i
           in if u \<le> 0 then 0 else i / u)"

fun nms_greedy :: "rat \<Rightarrow> detection list \<Rightarrow> detection list" where
  \<comment> \<open>Modelled from the spec: one sweep of the greedy suppression over candidates
      already in descending order of score. The head is emitted, the others whose IoU
      against it reaches the threshold are removed, and the sweep goes on with the rest.\<close>
  "nms_greedy thr [] = []"
| "nms_greedy thr (d # ds) =
     d # nms_greedy thr
           (filter (\<lambda>c. iou (corners (d_rect d)) (corners (d_rect c)) < thr) ds)"

definition nms :: "rat \<Rightarrow> detection list \<Rightarrow> detection list" where
  \<comment> \<open>Modelled from the spec: \<open>cv2.dnn.NMSBoxes\<close> is a library call whose code is not in
      the repository. The spec: standard greedy NMS, repeatedly take the highest-scoring
      remaining box, emit it, remove all others with IoU \<ge> \<open>iou_thres\<close> against it,
      until none remain. The candidates are put in descending order of score (equal
      scores keep their order), so the head of the remaining list is the
      highest-scoring remaining box.\<close>
  "nms iou_thres ds = nms_greedy iou_thres (sort_key (\<lambda>d. - d_score d) ds)"

definition NMSBoxes :: "detection list \<Rightarrow> rat \<Rightarrow> rat \<Rightarrow> detection list" where
  \<comment> \<open>Modelled from the spec: the call of line 63,
      \<open>cv2.dnn.NMSBoxes(rects, scores, conf_thres, iou_thres)\<close>, returns the indices of the
      survivors; here it returns the survivors themselves. Its score threshold is the
      confidence filter of the spec (drop candidates with \<open>score < conf_thres\<close>),
      followed by the greedy suppression.\<close>
  "NMSBoxes ds score_threshold nms_threshold =
     nms nms_threshold (filter (\<lambda>d. score_threshold \<le> d_score d) ds)"

definition candidates :: "tensor \<Rightarrow> nat \<Rightarrow> (box \<times> rat \<times> int) list" where
  \<comment> \<open>Lines 32--47 after the shape checks: the columns, the class ids, the fused
      confidence, and the rows \<open>(box, score, class id)\<close> of the top K indices. The class
      id is the unbounded integer \<open>np.rint\<close> gives; the cast to int32 of a value outside
      its range is not modelled.\<close>
  "candidates y K =
     (let x1 = column y 0; y1 = column y 1; x2 = column y 2; y2 = column y 3;
          f4 = column y 4; f5 = column y 5; f6 = column y 6;
          cls_id = map py_round f5;
          conf = fuse f4 f6;
          idx_top = top_k_indices conf K
      in map (\<lambda>i. ((x1 ! i, y1 ! i, x2 ! i, y2 ! i), conf ! i, cls_id ! i)) idx_top)"

definition decode ::
  "tensor \<Rightarrow> letterbox \<Rightarrow> rat \<Rightarrow> rat \<Rightarrow> nat \<Rightarrow> error + detection list" where
  \<comment> \<open>Lines 26--77, with the thresholds and K (200 in the script) as parameters.
      \<open>y[0]\<close> raises IndexError on an empty batch and \<open>y[:, i]\<close> on fewer than 7 columns;
      \<open>np.argpartition\<close> raises ValueError when \<open>K - 1\<close> is out of bounds of a
      non-empty score array. With
      \<open>r = 0\<close> the float division of line 50 leaves the rationals (inf, NaN): the model
      stops there with \<open>FloatDivideByZero\<close>. The result is the list the script draws:
      \<open>(rects[j], scores[j], cids[j])\<close> for the indices \<open>j\<close> NMSBoxes returns, and the
      empty list on the branch of line 76.\<close>
  "decode y0 t conf_thres iou_thres K =
     (let y = normalize_layout y0
      in if dim0 y = 0 \<or> dim2 y < 7 then Inl IndexError
         else if kth_out_of_bounds K (dim1 y) then Inl KthOutOfBounds
         else if scale t = 0 then Inl FloatDivideByZero
         else let top = map (\<lambda>(b, s, c). (unletterbox t b, s, c)) (candidates y K);
                  kept = filter (\<lambda>(b, s, c). conf_thres \<le> s) top
              in if kept = [] then Inr []
                 else Inr (NMSBoxes
                             (map (\<lambda>(b, s, c). \<lparr>d_rect = to_rect b, d_score = s, d_cls = c\<rparr>) kept)
                             conf_thres iou_thres))"

definition host_rows :: "tensor \<Rightarrow> error + (rat list) list" where
  \<comment> \<open>What lines 26--38 derive per candidate, before the top-K selection:
      \<open>(x1, y1, x2, y2, conf, cls_id)\<close>, the six columns of the canonical tensor.\<close>
  "host_rows y0 =
     (let y = normalize_layout y0
      in if dim0 y = 0 \<or> dim2 y < 7 then Inl IndexError
         else let conf = fuse (column y 4) (column y 6);
                  cls_id = map py_round (column y 5)
              in Inr (map (\<lambda>n. [at3 y 0 n 0, at3 y 0 n 1, at3 y 0 n 2, at3 y 0 n 3,
                                 conf ! n, of_int (cls_id ! n)])
                          [0..<dim1 y]))"

definition rows_of :: "tensor \<Rightarrow> (rat list) list" where
  \<comment> \<open>The rows of the first batch entry of a tensor.\<close>
  "rows_of t = map (\<lambda>n. map (at3 t 0 n) [0..<dim2 t]) [0..<dim1 t]"

section \<open>Augmenting a graph and running the result\<close>

definition augment_and_run :: "graph \<Rightarrow> env \<Rightarrow> error + tensor list" where
  "augment_and_run g feeds =
     (case augment g of Inl err \<Rightarrow> Inl err | Inr g' \<Rightarrow> run_graph g' feeds)"

definition augment_and_probe :: "graph \<Rightarrow> env \<Rightarrow> string \<Rightarrow> error + tensor" where
  \<comment> \<open>The value an intermediate name holds after the augmented graph has run.\<close>
  "augment_and_probe g feeds name =
     (case augment g of
        Inl err \<Rightarrow> Inl err
      | Inr g' \<Rightarrow> (case run_env g' feeds of Inl err \<Rightarrow> Inl err | Inr e \<Rightarrow> get_float e name))"

section \<open>Example inputs\<close>

definition example_graph :: graph where
  \<comment> \<open>A graph with one input and one output, the raw detector tensor.\<close>
  "example_graph =
     \<lparr>g_node = [make_node ''Identity'' [''images''] [''output0''] []],
      g_initializer = [],
      g_value_info = [],
      g_input = [make_tensor_value_info ''images'' FLOAT
                   [DimValue 1, DimValue 7, DimParam ''N'']],
      g_output = [make_tensor_value_info ''output0'' FLOAT []]\<rparr>"

definition raw8 :: tensor where
  \<comment> \<open>A raw tensor \<open>[1,7,8]\<close>: one line per channel \<open>x1, y1, x2, y2, f4, f5, f6\<close>, one
      column per candidate.\<close>
  "raw8 =
     \<lparr>dim0 = 1, dim1 = 7, dim2 = 8, elems =
        [ 100, 110, 104, 600,  900, 602,   0, 1000,
          300, 310, 304, 400,  700, 402, 280,  300,
          300, 310, 304, 800, 1000, 802,  50, 1200,
          500, 510, 504, 600,  800, 602, 330,  500,
          9/10, 2/10, 6/10, 1/2, 1/4, 3/4, 1/10, 8/10,
          0, 1, 3/2, 5/2, 12/10, 7/10, 2, 0,
          1, 1, 1/10, 2, 1, 1/2, 1, 1]\<rparr>"

definition raw3 :: tensor where
  \<comment> \<open>A raw tensor \<open>[1,7,3]\<close> with \<open>f4 = [0.2, 0.1, 0.05]\<close> and \<open>f6 = [1, 1, 1]\<close>.\<close>
  "raw3 =
     \<lparr>dim0 = 1, dim1 = 7, dim2 = 3, elems =
        [ 0, 10, 20,
          0, 10, 20,
          5, 15, 25,
          5, 15, 25,
          2/10, 1/10, 1/20,
          0, 1, 0,
          1, 1, 1]\<rparr>"

definition raw0 :: tensor where
  \<comment> \<open>A raw tensor \<open>[1,7,0]\<close>: seven channels, no candidate.\<close>
  "raw0 = \<lparr>dim0 = 1, dim1 = 7, dim2 = 0, elems = []\<rparr>"

definition lb_1920 :: letterbox where
  "lb_1920 = \<lparr>scale = 2 / 3, pad_x = 0, pad_y = 280, orig_w = 1920, orig_h = 1080\<rparr>"

section \<open>Properties of the letterbox\<close>

lemma py_round_of_int [simp]: "py_round (of_int n) = n"
  by (simp add: py_round_def Let_def)

lemma new_size_example: "new_size 1920 1080 1280 = Inr (2 / 3, 1280, 720)"
proof -
  have r: "min ((1280::rat) / 1920) (1280 / 1080) = 2 / 3" by simp
  have w: "py_round (1920 * (2 / 3)) = 1280"
    using py_round_of_int [of 1280] by simp
  have h: "py_round (1080 * (2 / 3)) = 720"
    using py_round_of_int [of 720] by simp
  show ?thesis using r w h by (simp add: new_size_def Let_def)
qed

lemma compute_example: "compute 1920 1080 1280 = Inr lb_1920"
  by (simp add: compute_def new_size_example lb_1920_def)

text \<open>
  C8. The concrete scenario of the letterbox computation: for a 1920 x 1080 image and
  target 1280 the scale is min(1280/1920, 1280/1080) = 2/3, the resized image is
  1280 x 720, and the paddings are 0 and 280.
\<close>

theorem compute_1920_1080_1280:
  "min ((1280::rat) / 1920) (1280 / 1080) = 2 / 3 \<and>
   new_size 1920 1080 1280 = Inr (2 / 3, 1280, 720) \<and>
   compute 1920 1080 1280 =
     Inr \<lparr>scale = 2 / 3, pad_x = 0, pad_y = 280, orig_w = 1920, orig_h = 1080\<rparr>"
proof -
  have "min ((1280::rat) / 1920) (1280 / 1080) = 2 / 3" by simp
  then show ?thesis
    using new_size_example compute_example by (simp add: lb_1920_def)
qed

lemma py_round_le:
  assumes "q \<le> of_int n"
  shows "py_round q \<le> n"
proof -
  have f: "\<lfloor>q\<rfloor> \<le> n" using assms by (simp add: floor_le_iff)
  show ?thesis
  proof (cases "\<lfloor>q\<rfloor> = n")
    case True
    then have "q = of_int n" using assms
      by (metis antisym of_int_floor_le)
    then show ?thesis by simp
  next
    case False
    then have "\<lfloor>q\<rfloor> + 1 \<le> n" using f by simp
    then show ?thesis by (auto simp: py_round_def Let_def)
  qed
qed

text \<open>
  Every transform the script computes from positive sizes is valid: the scale is
  positive and neither padding is negative.
\<close>

lemma compute_valid:
  assumes "compute w h T = Inr t" and "0 < w" and "0 < h" and "0 < T"
  shows "0 < scale t \<and> 0 \<le> pad_x t \<and> 0 \<le> pad_y t \<and> orig_w t = w \<and> orig_h t = h"
proof -
  define r where "r = min (rat_of_int T / of_int w) (of_int T / of_int h)"
  have t: "t = \<lparr>scale = r, pad_x = (T - py_round (of_int w * r)) div 2,
                pad_y = (T - py_round (of_int h * r)) div 2, orig_w = w, orig_h = h\<rparr>"
    using assms by (auto simp: compute_def new_size_def Let_def r_def)
  have rpos: "0 < r" using assms by (simp add: r_def)
  have "r \<le> of_int T / of_int w" by (simp add: r_def)
  then have "of_int w * r \<le> of_int w * (of_int T / of_int w)"
    using assms(2) by (intro mult_left_mono) simp_all
  then have wr: "of_int w * r \<le> of_int T" using assms(2) by simp
  have "r \<le> of_int T / of_int h" by (simp add: r_def)
  then have "of_int h * r \<le> of_int h * (of_int T / of_int h)"
    using assms(3) by (intro mult_left_mono) simp_all
  then have hr: "of_int h * r \<le> of_int T" using assms(3) by simp
  have "py_round (of_int w * r) \<le> T" by (rule py_round_le [OF wr])
  moreover have "py_round (of_int h * r) \<le> T" by (rule py_round_le [OF hr])
  ultimately show ?thesis using rpos by (simp add: t)
qed

lemma clip_near:
  assumes "0 \<le> x" and "x \<le> hi + 1" and "0 \<le> hi"
  shows "\<bar>clip x 0 hi - x\<bar> \<le> 1"
  using assms by (auto simp: clip_def min_def max_def)

text \<open>
  C4. For a transform with positive scale and a point \<open>(x, y)\<close> within the bounds of
  the original image, \<open>0 \<le> x \<le> orig_w\<close> and \<open>0 \<le> y \<le> orig_h\<close>, mapping the point to
  inference space by \<open>(x * scale + pad_x, y * scale + pad_y)\<close> and back by lines 50--53
  (subtract the padding, divide by the scale, clip to \<open>[0, orig_w - 1] x [0, orig_h - 1]\<close>)
  recovers it to within one pixel in each coordinate. The arithmetic is exact, so the
  only slack is the clip at the far edge.
\<close>

theorem letterbox_roundtrip:
  assumes "0 < scale t" and "1 \<le> orig_w t" and "1 \<le> orig_h t"
    and "0 \<le> x" and "x \<le> of_int (orig_w t)"
    and "0 \<le> y" and "y \<le> of_int (orig_h t)"
  shows "\<bar>fst (to_original_space t
                (x * scale t + of_int (pad_x t), y * scale t + of_int (pad_y t))) - x\<bar> \<le> 1
       \<and> \<bar>snd (to_original_space t
                (x * scale t + of_int (pad_x t), y * scale t + of_int (pad_y t))) - y\<bar> \<le> 1"
proof -
  have s: "scale t \<noteq> 0" using assms(1) by simp
  have bx: "(x * scale t + of_int (pad_x t) - of_int (pad_x t)) / scale t = x"
    using s by simp
  have by': "(y * scale t + of_int (pad_y t) - of_int (pad_y t)) / scale t = y"
    using s by simp
  have hx: "(0::rat) \<le> of_int (orig_w t - 1)" using assms(2) by simp
  have hy: "(0::rat) \<le> of_int (orig_h t - 1)" using assms(3) by simp
  have ux: "x \<le> of_int (orig_w t - 1) + 1" using assms(5) by simp
  have uy: "y \<le> of_int (orig_h t - 1) + 1" using assms(7) by simp
  have "\<bar>clip x 0 (of_int (orig_w t - 1)) - x\<bar> \<le> 1"
    by (rule clip_near [OF assms(4) ux hx])
  moreover have "\<bar>clip y 0 (of_int (orig_h t - 1)) - y\<bar> \<le> 1"
    by (rule clip_near [OF assms(6) uy hy])
  ultimately show ?thesis
    unfolding to_original_space_def fst_conv snd_conv bx by' by simp
qed

theorem letterbox_roundtrip_witness:
  "compute 1920 1080 1280 = Inr lb_1920 \<and> 0 < scale lb_1920 \<and>
   to_original_space lb_1920 (1920 * (2 / 3) + 0, 540 * (2 / 3) + 280) = (1919, 540) \<and>
   \<bar>fst (to_original_space lb_1920
           (1920 * scale lb_1920 + of_int (pad_x lb_1920),
            540 * scale lb_1920 + of_int (pad_y lb_1920))) - 1920\<bar> \<le> 1 \<and>
   \<bar>snd (to_original_space lb_1920
           (1920 * scale lb_1920 + of_int (pad_x lb_1920),
            540 * scale lb_1920 + of_int (pad_y lb_1920))) - 540\<bar> \<le> 1"
proof -
  have h: "0 < scale lb_1920" "1 \<le> orig_w lb_1920" "1 \<le> orig_h lb_1920"
    "(0::rat) \<le> 1920" "(1920::rat) \<le> of_int (orig_w lb_1920)"
    "(0::rat) \<le> 540" "(540::rat) \<le> of_int (orig_h lb_1920)"
    by (simp_all add: lb_1920_def)
  have v: "to_original_space lb_1920 (1920 * (2 / 3) + 0, 540 * (2 / 3) + 280) = (1919, 540)"
    by (simp add: to_original_space_def lb_1920_def clip_def)
  show ?thesis
    using letterbox_roundtrip [OF h] compute_example h(1) v by simp
qed

section \<open>Properties of the suppression\<close>

lemma set_nms_greedy: "set (nms_greedy thr ds) \<subseteq> set ds"
  by (induction thr ds rule: nms_greedy.induct) auto

lemma sorted_nms_greedy:
  "sorted (map f ds) \<Longrightarrow> sorted (map f (nms_greedy thr ds))"
proof (induction thr ds rule: nms_greedy.induct)
  case (1 thr)
  then show ?case by simp
next
  case (2 thr d ds)
  let ?rest = "filter (\<lambda>c. iou (corners (d_rect d)) (corners (d_rect c)) < thr) ds"
  have s: "sorted (map f ?rest)"
    using "2.prems" by (simp add: sorted_filter)
  have sub: "set (nms_greedy thr ?rest) \<subseteq> set ds"
    using set_nms_greedy [of thr ?rest] by auto
  have "\<forall>x \<in> set ds. f d \<le> f x" using "2.prems" by simp
  then have "\<forall>x \<in> set (nms_greedy thr ?rest). f d \<le> f x" using sub by blast
  then show ?case using "2.IH" [OF s] by simp
qed

text \<open>The survivors of a sweep survive a second sweep: none of them overlaps an earlier one.\<close>

lemma nms_greedy_idem: "nms_greedy thr (nms_greedy thr ds) = nms_greedy thr ds"
proof (induction thr ds rule: nms_greedy.induct)
  case (1 thr)
  then show ?case by simp
next
  case (2 thr d ds)
  let ?P = "\<lambda>c. iou (corners (d_rect d)) (corners (d_rect c)) < thr"
  have "set (nms_greedy thr (filter ?P ds)) \<subseteq> set (filter ?P ds)"
    by (rule set_nms_greedy)
  then have "\<forall>x \<in> set (nms_greedy thr (filter ?P ds)). ?P x" by auto
  then have "filter ?P (nms_greedy thr (filter ?P ds)) = nms_greedy thr (filter ?P ds)"
    by (simp only: filter_id_conv)
  then show ?case using "2.IH" by simp
qed

lemma nms_nms: "nms thr (nms thr ds) = nms thr ds"
proof -
  let ?f = "\<lambda>d. - d_score d"
  have "sorted (map ?f (sort_key ?f ds))" by simp
  then have "sorted (map ?f (nms_greedy thr (sort_key ?f ds)))"
    by (rule sorted_nms_greedy)
  then have "sort_key ?f (nms_greedy thr (sort_key ?f ds)) = nms_greedy thr (sort_key ?f ds)"
    by (rule sort_key_id_if_sorted)
  then show ?thesis by (simp add: nms_def nms_greedy_idem)
qed

text \<open>
  On candidates in descending order of score, a sweep commutes with a score filter:
  the candidates under the bar are a tail of the list and suppress nobody above it.
\<close>

lemma nms_greedy_filter:
  "sorted (map (\<lambda>d. - d_score d) ds) \<Longrightarrow>
   nms_greedy thr (filter (\<lambda>d. c \<le> d_score d) ds)
     = filter (\<lambda>d. c \<le> d_score d) (nms_greedy thr ds)"
proof (induction thr ds rule: nms_greedy.induct)
  case (1 thr)
  then show ?case by simp
next
  case (2 thr d ds)
  let ?P = "\<lambda>x. iou (corners (d_rect d)) (corners (d_rect x)) < thr"
  let ?Q = "\<lambda>d. c \<le> d_score d"
  have s: "sorted (map (\<lambda>d. - d_score d) (filter ?P ds))"
    using "2.prems" by (simp add: sorted_filter)
  have le: "\<forall>x \<in> set ds. d_score x \<le> d_score d" using "2.prems" by simp
  show ?case
  proof (cases "?Q d")
    case True
    have "filter ?P (filter ?Q ds) = filter ?Q (filter ?P ds)"
      by (simp add: conj_commute)
    then show ?thesis using True "2.IH" [OF s] by simp
  next
    case False
    then have none: "\<forall>x \<in> set ds. \<not> ?Q x" using le by auto
    then have l: "filter ?Q ds = []" by (simp add: filter_empty_conv)
    have "set (nms_greedy thr (filter ?P ds)) \<subseteq> set ds"
      using set_nms_greedy [of thr "filter ?P ds"] by auto
    then have "\<forall>x \<in> set (nms_greedy thr (filter ?P ds)). \<not> ?Q x" using none by blast
    then have r: "filter ?Q (nms_greedy thr (filter ?P ds)) = []"
      by (simp add: filter_empty_conv)
    show ?thesis using False l r by simp
  qed
qed

lemma NMSBoxes_filter:
  "NMSBoxes ds c thr = filter (\<lambda>d. c \<le> d_score d) (nms thr ds)"
proof -
  let ?f = "\<lambda>d. - d_score d"
  have "sort_key ?f (filter (\<lambda>d. c \<le> d_score d) ds)
          = filter (\<lambda>d. c \<le> d_score d) (sort_key ?f ds)"
    by (simp add: filter_sort)
  moreover have "sorted (map ?f (sort_key ?f ds))" by simp
  ultimately show ?thesis
    by (simp add: NMSBoxes_def nms_def nms_greedy_filter)
qed

text \<open>
  C5. Greedy NMS is idempotent: for every list of candidates and every IoU threshold,
  running NMS on the survivors of a run with the same threshold returns exactly those
  survivors, in the same order. The same holds for the call as the script makes it,
  with its score threshold.
\<close>

theorem nms_idempotent:
  "nms iou_thres (nms iou_thres ds) = nms iou_thres ds \<and>
   NMSBoxes (NMSBoxes ds conf_thres iou_thres) conf_thres iou_thres
     = NMSBoxes ds conf_thres iou_thres"
proof -
  let ?Q = "\<lambda>d. conf_thres \<le> d_score d"
  have "NMSBoxes (NMSBoxes ds conf_thres iou_thres) conf_thres iou_thres
          = filter ?Q (NMSBoxes (nms iou_thres ds) conf_thres iou_thres)"
    by (simp only: NMSBoxes_filter [of ds] NMSBoxes_def [of "filter ?Q (nms iou_thres ds)"])
       (simp only: NMSBoxes_def [symmetric] NMSBoxes_filter)
  also have "\<dots> = filter ?Q (filter ?Q (nms iou_thres (nms iou_thres ds)))"
    by (simp only: NMSBoxes_filter)
  also have "\<dots> = NMSBoxes ds conf_thres iou_thres"
    by (simp add: nms_nms NMSBoxes_filter)
  finally show ?thesis by (simp add: nms_nms)
qed

section \<open>Properties of the decoder\<close>

text \<open>
  Where no step raises, the decoder returns the survivors of the suppression of all
  top-K candidates that reach the confidence threshold.
\<close>

lemma decode_ok:
  assumes "\<not> (dim0 (normalize_layout y) = 0 \<or> dim2 (normalize_layout y) < 7)"
    and "\<not> kth_out_of_bounds K (num_candidates y)" and "scale t \<noteq> 0"
  shows "decode y t c thr K =
    Inr (filter (\<lambda>d. c \<le> d_score d)
          (nms thr (map (\<lambda>(b, s, k). \<lparr>d_rect = to_rect (unletterbox t b), d_score = s, d_cls = k\<rparr>)
                 (candidates (normalize_layout y) K))))"
proof -
  let ?top = "map (\<lambda>(b, s, c). (unletterbox t b, s, c)) (candidates (normalize_layout y) K)"
  let ?mk = "\<lambda>(b, s, c). \<lparr>d_rect = to_rect b, d_score = s, d_cls = c\<rparr>"
  let ?Q = "\<lambda>d. c \<le> d_score d"
  let ?kept = "filter (\<lambda>(b, s, k). c \<le> s) ?top"
  have m: "map ?mk ?kept = filter ?Q (map ?mk ?top)"
    by (induction "candidates (normalize_layout y) K")
       (auto simp: filter_map comp_def split: prod.splits)
  have n: "NMSBoxes (map ?mk ?kept) c thr = filter ?Q (nms thr (map ?mk ?top))"
  proof -
    have "NMSBoxes (map ?mk ?kept) c thr = nms thr (filter ?Q (filter ?Q (map ?mk ?top)))"
      by (simp only: m NMSBoxes_def)
    also have "\<dots> = nms thr (filter ?Q (map ?mk ?top))" by simp
    also have "\<dots> = NMSBoxes (map ?mk ?top) c thr" by (simp only: NMSBoxes_def)
    finally show ?thesis by (simp only: NMSBoxes_filter)
  qed
  have e: "?kept = [] \<Longrightarrow> filter ?Q (nms thr (map ?mk ?top)) = []"
  proof -
    assume "?kept = []"
    then have "NMSBoxes (map ?mk ?kept) c thr = []" by (simp add: NMSBoxes_def nms_def)
    then show ?thesis using n by simp
  qed
  have mm: "map ?mk ?top =
              map (\<lambda>(b, s, k). \<lparr>d_rect = to_rect (unletterbox t b), d_score = s, d_cls = k\<rparr>)
                  (candidates (normalize_layout y) K)"
    by (simp add: comp_def split_def)
  show ?thesis
    using assms n e unfolding decode_def num_candidates_def Let_def mm [symmetric]
    by (simp del: filter_filter)
qed

text \<open>
  C6. The size of the decoder's output is antitone in the confidence threshold: for
  thresholds \<open>c1 \<le> c2\<close> and the same tensor, transform, IoU threshold and K, either both
  runs raise the same error, or both return, and the detections at \<open>c2\<close> are those at
  \<open>c1\<close> whose score reaches \<open>c2\<close>, so there are no more of them.
\<close>

theorem decode_antitone:
  assumes "c1 \<le> c2"
  shows "case decode y t c1 thr K of
           Inl e \<Rightarrow> decode y t c2 thr K = Inl e
         | Inr d1 \<Rightarrow> decode y t c2 thr K = Inr (filter (\<lambda>d. c2 \<le> d_score d) d1)
                     \<and> length (filter (\<lambda>d. c2 \<le> d_score d) d1) \<le> length d1"
proof (cases "(dim0 (normalize_layout y) = 0 \<or> dim2 (normalize_layout y) < 7)
              \<or> kth_out_of_bounds K (num_candidates y) \<or> scale t = 0")
  case True
  then show ?thesis
    by (auto simp: decode_def num_candidates_def Let_def)
next
  case False
  then have a: "\<not> (dim0 (normalize_layout y) = 0 \<or> dim2 (normalize_layout y) < 7)"
    and b: "\<not> kth_out_of_bounds K (num_candidates y)" and c: "scale t \<noteq> 0"
    by auto
  let ?X = "nms thr (map (\<lambda>(b, s, k). \<lparr>d_rect = to_rect (unletterbox t b), d_score = s, d_cls = k\<rparr>)
                 (candidates (normalize_layout y) K))"
  define D1 where "D1 = filter (\<lambda>d. c1 \<le> d_score d) ?X"
  have d1: "decode y t c1 thr K = Inr D1"
    unfolding D1_def by (rule decode_ok [OF a b c])
  have "filter (\<lambda>d. c2 \<le> d_score d) D1 = filter (\<lambda>d. c2 \<le> d_score d) ?X"
    unfolding D1_def using assms by (auto intro: filter_cong)
  then have d2: "decode y t c2 thr K = Inr (filter (\<lambda>d. c2 \<le> d_score d) D1)"
    using decode_ok [OF a b c, of c2 thr] by simp
  have len: "length (filter (\<lambda>d. c2 \<le> d_score d) D1) \<le> length D1"
    by (rule length_filter_le)
  show ?thesis using d1 d2 len by simp
qed

lemma decode_raw8_quarter:
  "decode raw8 lb_1920 (1 / 4) (9 / 20) 8 =
     Inr [\<lparr>d_rect = (900, 180, 300, 300), d_score = 1, d_cls = 2\<rparr>,
          \<lparr>d_rect = (150, 30, 300, 300), d_score = 9 / 10, d_cls = 0\<rparr>,
          \<lparr>d_rect = (1500, 30, 300, 300), d_score = 4 / 5, d_cls = 0\<rparr>,
          \<lparr>d_rect = (1350, 630, 150, 150), d_score = 1 / 4, d_cls = 1\<rparr>]"
  by code_simp

theorem decode_antitone_witness:
  "(1 / 4 :: rat) \<le> 1 / 2 \<and>
   decode raw8 lb_1920 (1 / 4) (9 / 20) 8 =
     Inr [\<lparr>d_rect = (900, 180, 300, 300), d_score = 1, d_cls = 2\<rparr>,
          \<lparr>d_rect = (150, 30, 300, 300), d_score = 9 / 10, d_cls = 0\<rparr>,
          \<lparr>d_rect = (1500, 30, 300, 300), d_score = 4 / 5, d_cls = 0\<rparr>,
          \<lparr>d_rect = (1350, 630, 150, 150), d_score = 1 / 4, d_cls = 1\<rparr>] \<and>
   decode raw8 lb_1920 (1 / 2) (9 / 20) 8 =
     Inr [\<lparr>d_rect = (900, 180, 300, 300), d_score = 1, d_cls = 2\<rparr>,
          \<lparr>d_rect = (150, 30, 300, 300), d_score = 9 / 10, d_cls = 0\<rparr>,
          \<lparr>d_rect = (1500, 30, 300, 300), d_score = 4 / 5, d_cls = 0\<rparr>]"
proof -
  have h: "(1 / 4 :: rat) \<le> 1 / 2" by simp
  show ?thesis
    using decode_antitone [OF h, of raw8 lb_1920 "9 / 20" 8] h
    by (simp add: decode_raw8_quarter)
qed

text \<open>
  C9. The top-K selection is partial: with \<open>K \<ge> 1\<close> (200 in the script) and at least
  one but fewer than K candidates, \<open>np.argpartition(-conf, K-1)\<close> raises its
  out-of-bounds error, unless the column extraction has already raised, so the decoder
  returns no detections in either case. With no candidate at all the selection does
  not raise (see below), so the decoder can only succeed when \<open>N = 0\<close> or \<open>N \<ge> K\<close>.
\<close>

theorem topk_needs_K_candidates:
  assumes "1 \<le> K" and "0 < num_candidates y" and "num_candidates y < K"
  shows "decode y t c thr K =
           Inl (if dim0 (normalize_layout y) = 0 \<or> dim2 (normalize_layout y) < 7
                then IndexError else KthOutOfBounds)"
  using assms
  by (auto simp: decode_def num_candidates_def kth_out_of_bounds_def Let_def)

lemma num_candidates_raw8: "num_candidates raw8 = 8"
  by code_simp

lemma shape_ok_raw8:
  "\<not> (dim0 (normalize_layout raw8) = 0 \<or> dim2 (normalize_layout raw8) < 7)"
  by code_simp

theorem topk_needs_K_candidates_witness:
  "(1::nat) \<le> 200 \<and> num_candidates raw8 = 8 \<and>
   decode raw8 lb_1920 (1 / 4) (9 / 20) 200 = Inl KthOutOfBounds"
proof -
  have h: "(1::nat) \<le> 200" "0 < num_candidates raw8" "num_candidates raw8 < 200"
    by (simp_all add: num_candidates_raw8)
  show ?thesis
    using topk_needs_K_candidates [OF h, of lb_1920 "1 / 4" "9 / 20"] shape_ok_raw8
    by (simp add: num_candidates_raw8)
qed

text \<open>
  C9, as first stated for every \<open>N < K\<close>, fails at \<open>N = 0\<close>: on the tensor \<open>[1,7,0]\<close>
  the score array is empty, \<open>np.argpartition\<close> returns the empty index array without
  checking \<open>kth = 199\<close>, every later step runs on empty arrays, and the decoder returns
  the empty list on the branch of line 76.
\<close>

theorem topk_no_candidates_counterexample:
  "num_candidates raw0 = 0 \<and> num_candidates raw0 < 200 \<and>
   decode raw0 lb_1920 (1 / 4) (9 / 20) 200 = Inr []"
  by code_simp

text \<open>Without candidates the decoder returns the empty list, whatever K is.\<close>

lemma decode_no_candidates:
  assumes "num_candidates y = 0" and "scale t \<noteq> 0"
    and "1 \<le> dim0 (normalize_layout y)" and "7 \<le> dim2 (normalize_layout y)"
  shows "decode y t c thr K = Inr []"
proof -
  have k: "\<not> kth_out_of_bounds K (num_candidates y)"
    using assms(1) by (simp add: kth_out_of_bounds_def Let_def)
  have sh: "\<not> (dim0 (normalize_layout y) = 0 \<or> dim2 (normalize_layout y) < 7)"
    using assms by auto
  have "dim1 (normalize_layout y) = 0" using assms(1) by (simp add: num_candidates_def)
  then have "candidates (normalize_layout y) K = []"
    by (simp add: candidates_def column_def fuse_def top_k_indices_def Let_def)
  then show ?thesis using decode_ok [OF sh k assms(2), of c thr] by (simp add: nms_def)
qed

text \<open>With at least K candidates of seven columns and a non-zero scale, the decoder returns.\<close>

lemma decode_returns:
  assumes "1 \<le> K" and "K \<le> num_candidates y" and "scale t \<noteq> 0"
    and "1 \<le> dim0 (normalize_layout y)" and "7 \<le> dim2 (normalize_layout y)"
  shows "\<exists>ds. decode y t c thr K = Inr ds"
proof -
  have "\<not> kth_out_of_bounds K (num_candidates y)"
    using assms by (auto simp: kth_out_of_bounds_def Let_def)
  moreover have "\<not> (dim0 (normalize_layout y) = 0 \<or> dim2 (normalize_layout y) < 7)"
    using assms by auto
  ultimately show ?thesis using decode_ok assms(3) by blast
qed

lemma set_nms: "set (nms thr ds) \<subseteq> set ds"
  using set_nms_greedy [of thr "sort_key (\<lambda>d. - d_score d) ds"] by (simp add: nms_def)

lemma candidates_scores:
  "(b, s, k) \<in> set (candidates y K) \<Longrightarrow> s \<in> set (fuse (column y 4) (column y 6))"
proof -
  assume a: "(b, s, k) \<in> set (candidates y K)"
  let ?conf = "fuse (column y 4) (column y 6)"
  have "set (top_k_indices ?conf K) \<subseteq> {0..<length ?conf}"
    unfolding top_k_indices_def
    using set_take_subset [of K "sort_key (\<lambda>i. - (?conf ! i)) [0..<length ?conf]"]
    by auto
  then show ?thesis using a by (auto simp: candidates_def Let_def)
qed

text \<open>
  With at least K candidates, a tensor in which no fused score reaches the threshold
  decodes to the empty list.
\<close>

lemma decode_empty_below:
  assumes "1 \<le> K" and "K \<le> num_candidates y" and "scale t \<noteq> 0"
    and "1 \<le> dim0 (normalize_layout y)" and "7 \<le> dim2 (normalize_layout y)"
    and "\<forall>s \<in> set (fuse (column (normalize_layout y) 4) (column (normalize_layout y) 6)). s < c"
  shows "decode y t c thr K = Inr []"
proof -
  have k: "\<not> kth_out_of_bounds K (num_candidates y)"
    using assms by (auto simp: kth_out_of_bounds_def Let_def)
  have sh: "\<not> (dim0 (normalize_layout y) = 0 \<or> dim2 (normalize_layout y) < 7)"
    using assms by auto
  let ?D = "map (\<lambda>(b, s, k). \<lparr>d_rect = to_rect (unletterbox t b), d_score = s, d_cls = k\<rparr>)
                 (candidates (normalize_layout y) K)"
  have "\<forall>d \<in> set ?D. d_score d < c"
    using assms(6) candidates_scores [of _ _ _ "normalize_layout y" K] by fastforce
  then have "\<forall>d \<in> set (nms thr ?D). \<not> c \<le> d_score d"
    using set_nms [of thr ?D] by fastforce
  then have "filter (\<lambda>d. c \<le> d_score d) (nms thr ?D) = []"
    by (simp add: filter_empty_conv)
  then show ?thesis using decode_ok [OF sh k assms(3), of c thr] by simp
qed

text \<open>
  C7. A tensor in which no candidate's fused score reaches the threshold should decode
  to the empty sequence without an error. On the \<open>[1,7,3]\<close> tensor \<open>raw3\<close>, whose fused
  scores 1/5, 1/10 and 1/20 are all under 1/4, the decoder with the script's
  \<open>K = 200\<close> raises the out-of-bounds error of the top-K selection instead.
\<close>

theorem decode_raw3_raises:
  "fuse (column (normalize_layout raw3) 4) (column (normalize_layout raw3) 6)
     = [1 / 5, 1 / 10, 1 / 20] \<and>
   decode raw3 lb_1920 (1 / 4) (9 / 20) 200 = Inl KthOutOfBounds"
  by code_simp

section \<open>Properties of the augmentation\<close>

text \<open>
  C10. The augmentation only appends and renames: when it returns, the nodes that were
  there come first and keep their op types, inputs and attributes, their output entries
  equal to the original output name are renamed to that name with the suffix
  \<open>_raw\<close>, twelve nodes follow them; the initializers and the value infos that were
  there come first and are unchanged (28 initializers follow); the inputs are
  unchanged; and the last output binding is replaced by \<open>post_dets\<close>, so a graph with
  a single output ends with that single new output.
\<close>

theorem augment_frame:
  assumes "augment g = Inr g'"
  shows "g_output g \<noteq> [] \<and>
    length (g_node g') = length (g_node g) + 12 \<and>
    take (length (g_node g)) (g_node g')
      = map (rename_output (vi_name (hd (g_output g))) (vi_name (hd (g_output g)) @ ''_raw''))
            (g_node g) \<and>
    map op_type (take (length (g_node g)) (g_node g')) = map op_type (g_node g) \<and>
    map n_input (take (length (g_node g)) (g_node g')) = map n_input (g_node g) \<and>
    map n_attribute (take (length (g_node g)) (g_node g')) = map n_attribute (g_node g) \<and>
    map n_output (take (length (g_node g)) (g_node g'))
      = map (\<lambda>n. map (\<lambda>nm. if nm = vi_name (hd (g_output g))
                             then vi_name (hd (g_output g)) @ ''_raw'' else nm) (n_output n))
            (g_node g) \<and>
    length (g_initializer g') = length (g_initializer g) + 28 \<and>
    take (length (g_initializer g)) (g_initializer g') = g_initializer g \<and>
    take (length (g_value_info g)) (g_value_info g') = g_value_info g \<and>
    g_input g' = g_input g \<and>
    g_output g' = butlast (g_output g) @ [post_dets_info]"
proof (cases "g_output g")
  case Nil
  then show ?thesis using assms by (simp add: augment_def)
next
  case (Cons out0 rest)
  have g': "g' = (case augment g of Inr x \<Rightarrow> x)" using assms by simp
  show ?thesis
    unfolding g'
    by (simp add: augment_def Cons make_slice_col_def Let_def rename_output_def comp_def)
qed

theorem augment_frame_witness:
  "case augment example_graph of
     Inl e \<Rightarrow> False
   | Inr g' \<Rightarrow>
       g_output example_graph = [make_tensor_value_info ''output0'' FLOAT []] \<and>
       g_output g' = [post_dets_info] \<and>
       length (g_node g') = 13 \<and>
       take 1 (g_node g') = [make_node ''Identity'' [''images''] [''output0_raw''] []] \<and>
       length (g_initializer g') = 28 \<and>
       g_input g' = g_input example_graph"
proof -
  obtain g' where a: "augment example_graph = Inr g'"
    by (simp add: augment_def example_graph_def Let_def make_slice_col_def)
  show ?thesis
    using augment_frame [OF a] a
    by (simp add: example_graph_def rename_output_def make_node_def make_tensor_value_info_def)
qed

section \<open>What the inserted nodes compute\<close>

lemma axis_range_012:
  "axis_range [s0, s1, s2] [e0, e1, e2] [0, 1, 2] 0 d = (clamp_index d s0, clamp_index d e0)"
  "axis_range [s0, s1, s2] [e0, e1, e2] [0, 1, 2] 1 d = (clamp_index d s1, clamp_index d e1)"
  "axis_range [s0, s1, s2] [e0, e1, e2] [0, 1, 2] 2 d = (clamp_index d s2, clamp_index d e2)"
  by (simp_all add: axis_range_def)

text \<open>
  The constants \<open>make_slice_col\<close> writes for column \<open>i\<close> are \<open>starts = [0, i, 0]\<close> and
  \<open>ends = [1, i + 1, 2^63 - 1]\<close> on axes \<open>[0, 1, 2]\<close>. On any tensor they keep the index
  \<open>i\<close> of axis 1 and the whole of axis 2: of the transposed tensor \<open>[1, N, 7]\<close> that is
  candidate \<open>i\<close> with its seven channels, a tensor \<open>[1, 1, 7]\<close> (or \<open>[1, 0, 7]\<close>
  when \<open>N \<le> i\<close>).
\<close>

lemma slice_col_is_row:
  assumes "int (dim2 t) \<le> 9223372036854775807"
  shows "slice3 t [0, int i, 0] [1, int i + 1, 9223372036854775807] [0, 1, 2] [1, 1, 1]
       = Inr (build3 (min 1 (dim0 t)) (if i < dim1 t then 1 else 0) (dim2 t)
                (\<lambda>b a j. at3 t b (min i (dim1 t) + a) j))"
proof -
  have c0: "clamp_index (dim0 t) 0 = 0" "clamp_index (dim0 t) 1 = min 1 (dim0 t)"
    by (auto simp: clamp_index_def)
  have c1: "clamp_index (dim1 t) (int i) = min i (dim1 t)"
    "clamp_index (dim1 t) (int i + 1) = min (i + 1) (dim1 t)"
    by (auto simp: clamp_index_def)
  have c2: "clamp_index (dim2 t) 0 = 0" "clamp_index (dim2 t) 9223372036854775807 = dim2 t"
    using assms by (auto simp: clamp_index_def)
  have n: "min (i + 1) (dim1 t) - min i (dim1 t) = (if i < dim1 t then 1 else 0)"
    by auto
  show ?thesis
    unfolding slice3_def axis_range_012 c0 c1 c2 Let_def fst_conv snd_conv n
    by simp
qed

text \<open>
  For comparison, the slice the docstring of \<open>make_slice_col\<close> describes (the last
  dimension from 4 to 5, the other two whole) does select the channel \<open>f4\<close> of all
  eight candidates of \<open>raw8\<close>.
\<close>

lemma slice_last_axis_example:
  "map_sum id (\<lambda>t. (shape t, elems t))
     (slice3 (transpose021 raw8) [0, 0, 4] [1, 9223372036854775807, 5] [0, 1, 2] [1, 1, 1])
   = Inr ([1, 8, 1], [9 / 10, 1 / 5, 3 / 5, 1 / 2, 1 / 4, 3 / 4, 1 / 10, 4 / 5])"
  by code_simp

text \<open>
  C2. Each of the seven slice nodes should select one channel of all N candidates, a
  tensor \<open>[1, N, 1]\<close>. In the augmented example graph run on the \<open>[1,7,8]\<close> tensor
  \<open>raw8\<close>, the transposed tensor \<open>n7\<close> has shape \<open>[1, 8, 7]\<close>, and each slice output has
  shape \<open>[1, 1, 7]\<close>: \<open>c_x1\<close> holds the seven channels of candidate 0, \<open>c_y1\<close> those of
  candidate 1, and so on up to \<open>c_f6\<close> with those of candidate 6.
\<close>

theorem slices_select_candidates:
  "map_sum id shape (augment_and_probe example_graph [(''images'', FloatT raw8)] ''n7'')
     = Inr [1, 8, 7] \<and>
   map (\<lambda>name. map_sum id (\<lambda>t. (shape t, elems t))
               (augment_and_probe example_graph [(''images'', FloatT raw8)] name))
       [''c_x1'', ''c_y1'', ''c_x2'', ''c_y2'', ''c_f4'', ''c_f5'', ''c_f6'']
   = [Inr ([1, 1, 7], [100, 300, 300, 500, 9 / 10, 0, 1]),
      Inr ([1, 1, 7], [110, 310, 310, 510, 1 / 5, 1, 1]),
      Inr ([1, 1, 7], [104, 304, 304, 504, 3 / 5, 3 / 2, 1 / 10]),
      Inr ([1, 1, 7], [600, 400, 800, 600, 1 / 2, 5 / 2, 2]),
      Inr ([1, 1, 7], [900, 700, 1000, 800, 1 / 4, 6 / 5, 1]),
      Inr ([1, 1, 7], [602, 402, 802, 602, 3 / 4, 7 / 10, 1 / 2]),
      Inr ([1, 1, 7], [0, 280, 50, 330, 1 / 10, 2, 1])]"
  by code_simp

text \<open>
  C3. The new output is declared as \<open>[1, unk, 6]\<close> and should hold, per candidate,
  \<open>(x1, y1, x2, y2, max(f4*f6, f4), round(f5))\<close>. In the augmented example graph run on
  \<open>raw8\<close> (eight candidates) the output \<open>post_dets\<close> has shape \<open>[1, 1, 42]\<close>, not
  \<open>[1, 8, 6]\<close>.
\<close>

theorem post_dets_shape:
  "map_sum id (\<lambda>g. map (\<lambda>v. (vi_name v, vi_shape v)) (g_output g)) (augment example_graph)
     = Inr [(''post_dets'', [DimValue 1, DimParam ''unk'', DimValue 6])] \<and>
   map_sum id (map shape) (augment_and_run example_graph [(''images'', FloatT raw8)])
     = Inr [[1, 1, 42]]"
  by code_simp

text \<open>
  C1. The host decoder and the augmented graph should derive the same score and class
  id per candidate from the same raw values. On \<open>raw8\<close> the host derives eight rows
  \<open>(x1, y1, x2, y2, conf, cls_id)\<close>; the augmented graph returns one row of 42 values:
  the channels of candidates 0 to 3, then the elementwise \<open>max(c4 * c6, c4)\<close> of the
  channel vectors of candidates 4 and 6, then the rounded channels of candidate 5.
\<close>

theorem host_and_graph_differ:
  "host_rows raw8 =
     Inr [[100, 300, 300, 500, 9 / 10, 0], [110, 310, 310, 510, 1 / 5, 1],
          [104, 304, 304, 504, 3 / 5, 2], [600, 400, 800, 600, 1, 2],
          [900, 700, 1000, 800, 1 / 4, 1], [602, 402, 802, 602, 3 / 4, 1],
          [0, 280, 50, 330, 1 / 10, 2], [1000, 300, 1200, 500, 4 / 5, 0]] \<and>
   map_sum id (map rows_of) (augment_and_run example_graph [(''images'', FloatT raw8)]) =
     Inr [[[100, 300, 300, 500, 9 / 10, 0, 1,
            110, 310, 310, 510, 1 / 5, 1, 1,
            104, 304, 304, 504, 3 / 5, 3 / 2, 1 / 10,
            600, 400, 800, 600, 1 / 2, 5 / 2, 2,
            900, 196000, 50000, 264000, 1 / 4, 12 / 5, 1,
            602, 402, 802, 602, 1, 1, 0]]]"
  by code_simp

end
